theory Spec2Isabelle
  imports Main "HOL-Library.Word" "HOL-Library.AList" "HOL-Library.Char_ord"
    "HOL-Library.List_Lexorder"
begin

unbundle bit_operations_syntax

section \<open>Message protocol (package shared)\<close>

text \<open>
  \<^verbatim>\<open>type MessageType string\<close>: a message type is a Go string, so an inbound envelope can
  carry any text there. The twelve constants keep their wire spelling.
\<close>

type_synonym MessageType = string

definition MsgRequestLobbies :: MessageType where "MsgRequestLobbies = ''request_lobbies''"
definition MsgCreateLobby :: MessageType where "MsgCreateLobby = ''create_lobby''"
definition MsgJoinLobby :: MessageType where "MsgJoinLobby = ''join_lobby''"
definition MsgLeaveLobby :: MessageType where "MsgLeaveLobby = ''leave_lobby''"
definition MsgSetReady :: MessageType where "MsgSetReady = ''set_ready''"
definition MsgStartGame :: MessageType where "MsgStartGame = ''start_game''"
definition MsgLobbyList :: MessageType where "MsgLobbyList = ''lobby_list''"
definition MsgLobbyState :: MessageType where "MsgLobbyState = ''lobby_state''"
definition MsgPlayerJoined :: MessageType where "MsgPlayerJoined = ''player_joined''"
definition MsgPlayerLeft :: MessageType where "MsgPlayerLeft = ''player_left''"
definition MsgError :: MessageType where "MsgError = ''error''"
definition MsgGameStarting :: MessageType where "MsgGameStarting = ''game_starting''"

text \<open>
  The server-to-client payload structs. Fields are positional, in the order of the Go
  declaration: \<open>LobbyInfo ID Name PlayerCount MaxPlayers InGame\<close>,
  \<open>PlayerInfo ID Name Ready IsHost\<close>,
  \<open>LobbyStatePayload LobbyID LobbyName Players YouAreHost\<close>.
\<close>

datatype LobbyInfo = LobbyInfo string string nat nat bool

datatype PlayerInfo = PlayerInfo string string bool bool

datatype Payload =
    LobbyListPayload "LobbyInfo list"
  | LobbyStatePayload string string "PlayerInfo list" bool
  | PlayerJoinedPayload PlayerInfo
  | PlayerLeftPayload string
  | ErrorPayload string
  | GameStartingPayload string

datatype Envelope = Envelope MessageType Payload

text \<open>
  \<open>json.Marshal\<close> of an envelope built from these structs cannot fail, so the bytes
  put on a channel are kept in structured form. The error branch of the callers stays in
  the model as the \<open>None\<close> case.
\<close>

datatype bytes = JSON Envelope

definition marshal :: "Envelope \<Rightarrow> bytes option" where
  "marshal env = Some (JSON env)"

section \<open>Client (the session)\<close>

text \<open>
  A \<^verbatim>\<open>*Client\<close> is shared between the hub, the lobby that holds it and its own pumps.
  Its immutable part (\<open>id\<close>, \<open>name\<close>) is the record below; its mutable parts, the
  \<open>send\<close> channel and the \<open>lobby\<close> pointer, live in the store, addressed by the
  client's id.
\<close>

record Client =
  c_id :: string
  c_name :: string

datatype panic = SliceOutOfRange

text \<open>\<^verbatim>\<open>make(chan []byte, 64)\<close> in \<open>NewClient\<close>: the capacity of every send channel.\<close>

definition sendBuffer :: nat where
  "sendBuffer = 64"

text \<open>
  \<^verbatim>\<open>name: "Player-" + id[:6]\<close>. Slicing a Go string past its length panics at run
  time; the panic is the \<open>Inl\<close> result.
\<close>

definition NewClient :: "string \<Rightarrow> panic + Client" where
  "NewClient ident =
     (if length ident < 6 then Inl SliceOutOfRange
      else Inr \<lparr>c_id = ident, c_name = ''Player-'' @ take 6 ident\<rparr>)"

subsection \<open>generateID\<close>

text \<open>
  \<^verbatim>\<open>b := make([]byte, 16); rand.Read(b); return hex.EncodeToString(b)\<close>. The entropy
  source is an argument: \<open>rnd i\<close> is the byte that \<open>rand.Read\<close> stores at index \<open>i\<close>.
  \<open>hex.EncodeToString\<close> writes two lower-case digits per byte, high nibble first.
\<close>

definition hextable :: string where
  "hextable = ''0123456789abcdef''"

definition hexByte :: "8 word \<Rightarrow> string" where
  "hexByte b = [hextable ! unat (drop_bit 4 b), hextable ! unat (b AND 0x0f)]"

definition EncodeToString :: "8 word list \<Rightarrow> string" where
  "EncodeToString bs = concat (map hexByte bs)"

definition generateID :: "(nat \<Rightarrow> 8 word) \<Rightarrow> string" where
  "generateID rnd = EncodeToString (map rnd [0..<16])"

section \<open>The store\<close>

text \<open>
  \<open>GameState\<close> is a Go string type with three named values; the zero value is the
  empty string.
\<close>

type_synonym GameState = string

definition waiting :: GameState where "waiting = ''waiting''"
definition countDown :: GameState where "countDown = ''starting game''"
definition inGame :: GameState where "inGame = ''playing''"

definition maxPlayersPerLobby :: nat where
  "maxPlayersPerLobby = 4"

text \<open>
  The \<open>Lobby\<close> struct. Go maps are association lists: the order of the list is the order
  in which \<^verbatim>\<open>range\<close> visits the map in the run at hand, which Go leaves unspecified, so
  two lists with the same bindings in another order are the same map. Every map operation
  of the code keeps the keys distinct.

  The methods \<open>addPlayer\<close> and \<open>Info\<close> read a boolean \<^verbatim>\<open>l.inGame\<close>. The struct
  declaration has no such field (it declares \<open>state GameState\<close>, which no method reads
  or writes), so the flag the methods read is carried as the field \<open>inGame_flag\<close>. No
  function of the repository assigns it; a composite literal leaves it \<open>false\<close>.
\<close>

record Lobby =
  l_id :: string
  l_name :: string
  hostID :: string
  state :: GameState
  inGame_flag :: bool
  players :: "(string \<times> Client) list"
  ready :: "(string \<times> bool) list"

text \<open>
  The mutable objects reachable from a lobby method or a handler: the hub's lobby map,
  every client's send channel (its buffered, not yet written messages, oldest first) and
  lobby pointer (the id of the lobby it points to), and the process log.
\<close>

record World =
  lobbies :: "(string \<times> Lobby) list"
  chans :: "string \<Rightarrow> bytes list"
  cur_lobby :: "string \<Rightarrow> string option"
  logs :: "string list"

text \<open>\<^verbatim>\<open>len(m)\<close>: the number of keys.\<close>

definition len :: "('k \<times> 'v) list \<Rightarrow> nat" where
  "len m = length (remdups (map fst m))"

section \<open>Client.sendEnvelope and Client.sendError\<close>

text \<open>
  \<^verbatim>\<open>select { case c.send <- data: default: log.Printf(...) }\<close>. A send on a buffered
  channel can proceed exactly when the buffer is not full; otherwise the \<open>default\<close>
  branch runs at once. The channel is open: the hub closes it only when it unregisters
  the client, after the client has left its lobby.
\<close>

definition sendEnvelope :: "Client \<Rightarrow> Envelope \<Rightarrow> World \<Rightarrow> World" where
  "sendEnvelope c env w =
     (case marshal env of
        None \<Rightarrow> w\<lparr>logs := logs w @ [''marshal error'']\<rparr>
      | Some data \<Rightarrow>
          if length (chans w (c_id c)) < sendBuffer
          then w\<lparr>chans := (chans w)(c_id c := chans w (c_id c) @ [data])\<rparr>
          else w\<lparr>logs := logs w @ [''client '' @ c_id c @ '' send buffer full, dropping'']\<rparr>)"

definition sendError :: "Client \<Rightarrow> string \<Rightarrow> World \<Rightarrow> World" where
  "sendError c msg w = sendEnvelope c (Envelope MsgError (ErrorPayload msg)) w"

section \<open>Lobby\<close>

text \<open>The three errors \<open>addPlayer\<close> builds with \<open>errors.New\<close>, and their texts.\<close>

datatype error = GameInProgress | RoomFull | AlreadyMember

fun errorString :: "error \<Rightarrow> string" where
  "errorString GameInProgress = ''game already in progress''"
| "errorString RoomFull = ''lobby is full''"
| "errorString AlreadyMember = ''already in this lobby''"

text \<open>
  \<open>NewLobby\<close> fills \<open>id\<close>, \<open>name\<close>, \<open>hostID\<close> and the two maps. The composite literal
  names neither \<open>state\<close> nor the flag, which therefore hold their zero values.
\<close>

definition NewLobby :: "string \<Rightarrow> string \<Rightarrow> Client \<Rightarrow> Lobby" where
  "NewLobby ident nm host =
     \<lparr>l_id = ident, l_name = nm, hostID = c_id host, state = [], inGame_flag = False,
      players = AList.update (c_id host) host [],
      ready = AList.update (c_id host) False []\<rparr>"

text \<open>\<^verbatim>\<open>l.ready[id]\<close>: reading a missing key of a Go map gives the zero value.\<close>

definition ready_of :: "Lobby \<Rightarrow> string \<Rightarrow> bool" where
  "ready_of l k = (case map_of (ready l) k of None \<Rightarrow> False | Some b \<Rightarrow> b)"

definition broadcastUnlocked :: "Lobby \<Rightarrow> Envelope \<Rightarrow> World \<Rightarrow> World" where
  "broadcastUnlocked l env w = fold (\<lambda>(k, client). sendEnvelope client env) (players l) w"

definition lobbyState :: "Lobby \<Rightarrow> Client \<Rightarrow> Envelope" where
  "lobbyState l c =
     Envelope MsgLobbyState
       (LobbyStatePayload (l_id l) (l_name l)
          (map (\<lambda>(k, client). PlayerInfo k (c_name client) (ready_of l k) (k = hostID l))
               (players l))
          (c_id c = hostID l))"

definition sendStateToClientUnlocked :: "Lobby \<Rightarrow> Client \<Rightarrow> World \<Rightarrow> World" where
  "sendStateToClientUnlocked l c w = sendEnvelope c (lobbyState l c) w"

definition sendStateToAllUnlocked :: "Lobby \<Rightarrow> World \<Rightarrow> World" where
  "sendStateToAllUnlocked l w =
     fold (\<lambda>(k, client). sendStateToClientUnlocked l client) (players l) w"

definition sendStateToAll :: "Lobby \<Rightarrow> World \<Rightarrow> World" where
  "sendStateToAll l w = sendStateToAllUnlocked l w"

definition playerJoined :: "Client \<Rightarrow> Envelope" where
  "playerJoined c =
     Envelope MsgPlayerJoined (PlayerJoinedPayload (PlayerInfo (c_id c) (c_name c) False False))"

text \<open>
  \<open>addPlayer\<close> returns the error (\<open>None\<close> for \<open>nil\<close>) together with the lobby and the
  store as the call leaves them, so that a failing call's effects can be stated.
\<close>

definition addPlayer :: "Lobby \<Rightarrow> Client \<Rightarrow> World \<Rightarrow> error option \<times> Lobby \<times> World" where
  "addPlayer l c w =
     (if inGame_flag l then (Some GameInProgress, l, w)
      else if maxPlayersPerLobby \<le> len (players l) then (Some RoomFull, l, w)
      else if map_of (players l) (c_id c) \<noteq> None then (Some AlreadyMember, l, w)
      else
        let l1 = l\<lparr>players := AList.update (c_id c) c (players l),
                   ready := AList.update (c_id c) False (ready l)\<rparr>;
            w1 = broadcastUnlocked l1 (playerJoined c) w;
            w2 = sendStateToClientUnlocked l1 c w1
        in (None, l1, w2))"

subsection \<open>Hub: the lobby directory\<close>

definition getLobby :: "World \<Rightarrow> string \<Rightarrow> Lobby option" where
  "getLobby w ident = map_of (lobbies w) ident"

definition removeLobby :: "string \<Rightarrow> World \<Rightarrow> World" where
  "removeLobby ident w =
     w\<lparr>lobbies := AList.delete ident (lobbies w),
       logs := logs w @ [''lobby removed: '' @ ident]\<rparr>"

text \<open>\<open>createLobby\<close> draws the id from \<open>generateID\<close>; the entropy is the argument \<open>rnd\<close>.\<close>

definition createLobby :: "string \<Rightarrow> Client \<Rightarrow> (nat \<Rightarrow> 8 word) \<Rightarrow> World \<Rightarrow> Lobby \<times> World" where
  "createLobby nm host rnd w =
     (let ident = generateID rnd;
          lobby = NewLobby ident nm host
      in (lobby,
          w\<lparr>lobbies := AList.update ident lobby (lobbies w),
            logs := logs w @ [''lobby created: '' @ nm @ '' ('' @ ident @ '')'']\<rparr>))"

subsection \<open>removePlayer\<close>

text \<open>
  \<^verbatim>\<open>for id := range l.players { l.hostID = id; break }\<close> takes the first key the
  iteration yields.
\<close>

definition pickHost :: "Lobby \<Rightarrow> Lobby" where
  "pickHost l = (case players l of [] \<Rightarrow> l | (k, client) # rest \<Rightarrow> l\<lparr>hostID := k\<rparr>)"

definition playerLeft :: "Client \<Rightarrow> Envelope" where
  "playerLeft c = Envelope MsgPlayerLeft (PlayerLeftPayload (c_id c))"

definition removePlayer :: "Lobby \<Rightarrow> Client \<Rightarrow> World \<Rightarrow> Lobby \<times> World" where
  "removePlayer l c w =
     (if map_of (players l) (c_id c) = None then (l, w)
      else
        let l1 = l\<lparr>players := AList.delete (c_id c) (players l),
                   ready := AList.delete (c_id c) (ready l)\<rparr>
        in if len (players l1) = 0 then (l1, removeLobby (l_id l1) w)
           else
             let l2 = (if hostID l1 = c_id c then pickHost l1 else l1);
                 w1 = broadcastUnlocked l2 (playerLeft c) w;
                 w2 = sendStateToAllUnlocked l2 w1
             in (l2, w2))"

definition Info :: "Lobby \<Rightarrow> LobbyInfo" where
  "Info l = LobbyInfo (l_id l) (l_name l) (len (players l)) maxPlayersPerLobby (inGame_flag l)"

definition sendLobbyList :: "World \<Rightarrow> Client \<Rightarrow> World" where
  "sendLobbyList w c =
     sendEnvelope c (Envelope MsgLobbyList (LobbyListPayload (map (\<lambda>(k, lobby). Info lobby) (lobbies w)))) w"

section \<open>Lobby methods the repository calls but does not define\<close>

text \<open>
  Modelled from the spec: \<open>Lobby.setPlayerReady\<close>, called by \<open>Client.handleSetReady\<close>
  and defined in no file of the repository. The spec's \<open>setReady\<close>: a no-op when the
  session id is absent from \<open>ready\<close>; otherwise set the flag and broadcast the updated
  room state to all members.
\<close>

definition setPlayerReady :: "Lobby \<Rightarrow> Client \<Rightarrow> bool \<Rightarrow> World \<Rightarrow> Lobby \<times> World" where
  "setPlayerReady l c r w =
     (if map_of (ready l) (c_id c) = None then (l, w)
      else
        let l1 = l\<lparr>ready := AList.update (c_id c) r (ready l)\<rparr>
        in (l1, sendStateToAllUnlocked l1 w))"

text \<open>
  Modelled from the spec: \<open>Lobby.tryStart\<close>, called by \<open>Client.handleStartGame\<close> and
  defined in no file of the repository. The spec's \<open>tryStart\<close>: fails, with an error sent
  only to the requester, unless the session is the host; fails unless the state is
  \<open>waiting\<close>; fails unless every member's ready flag is true; on success the state becomes
  \<open>starting\<close> (the constant \<open>countDown\<close>) and \<open>game_starting\<close> is broadcast to all
  members. The spec's names of the three failures are the error texts. The entity id put
  in each member's \<open>game_starting\<close> payload is not fixed by the spec: it is the
  argument \<open>tank\<close>, applied to the member's id.
\<close>

datatype startError = NotHost | NotWaiting | NotAllReady

fun startErrorString :: "startError \<Rightarrow> string" where
  "startErrorString NotHost = ''NotHost''"
| "startErrorString NotWaiting = ''GameInProgress''"
| "startErrorString NotAllReady = ''NotAllReady''"

definition allReady :: "Lobby \<Rightarrow> bool" where
  "allReady l = list_all (\<lambda>(k, client). ready_of l k) (players l)"

definition gameStarting :: "(string \<Rightarrow> string) \<Rightarrow> string \<Rightarrow> Envelope" where
  "gameStarting tank k = Envelope MsgGameStarting (GameStartingPayload (tank k))"

definition startFailure :: "startError \<Rightarrow> Lobby \<Rightarrow> Client \<Rightarrow> World \<Rightarrow> startError option \<times> Lobby \<times> World" where
  "startFailure e l c w = (Some e, l, sendError c (startErrorString e) w)"

definition tryStart ::
  "(string \<Rightarrow> string) \<Rightarrow> Lobby \<Rightarrow> Client \<Rightarrow> World \<Rightarrow> startError option \<times> Lobby \<times> World" where
  "tryStart tank l c w =
     (if c_id c \<noteq> hostID l then startFailure NotHost l c w
      else if state l \<noteq> waiting then startFailure NotWaiting l c w
      else if \<not> allReady l then startFailure NotAllReady l c w
      else
        let l1 = l\<lparr>state := countDown\<rparr>
        in (None, l1,
            fold (\<lambda>(k, client). sendEnvelope client (gameStarting tank k)) (players l1) w))"

section \<open>Decoding inbound frames\<close>

text \<open>
  A frame is a JSON document; \<open>None\<close> stands for bytes that are not well-formed JSON.
  An object lists its members in the order the decoder meets them. Numbers keep their
  literal text: no code here reads one.
\<close>

datatype json =
    JNull
  | JBool bool
  | JNumber string
  | JString string
  | JArray "json list"
  | JObject "(string \<times> json) list"

text \<open>
  \<open>encoding/json\<close> matches an object key with a struct field's name without regard to
  letter case. None of the five field names used here holds a letter with a non-ASCII
  case variant, so folding ASCII letters decides the match.
\<close>

definition lower :: "char \<Rightarrow> char" where
  "lower ch =
     (case map_of (zip ''ABCDEFGHIJKLMNOPQRSTUVWXYZ'' ''abcdefghijklmnopqrstuvwxyz'') ch of
        None \<Rightarrow> ch
      | Some d \<Rightarrow> d)"

definition keyIs :: "string \<Rightarrow> string \<Rightarrow> bool" where
  "keyIs field k = (map lower k = field)"

text \<open>
  Storing a JSON value in a field of kind string or bool: \<open>null\<close> leaves the field as it
  is, a value of the field's kind is stored, any other value records a type error and
  leaves the field; decoding goes on with the next member. The pair is the error recorded
  so far and the field.
\<close>

fun storeString :: "json \<Rightarrow> bool \<times> string \<Rightarrow> bool \<times> string" where
  "storeString (JString s) (err, v) = (err, s)"
| "storeString JNull (err, v) = (err, v)"
| "storeString x (err, v) = (True, v)"

fun storeBool :: "json \<Rightarrow> bool \<times> bool \<Rightarrow> bool \<times> bool" where
  "storeBool (JBool b) (err, v) = (err, b)"
| "storeBool JNull (err, v) = (err, v)"
| "storeBool x (err, v) = (True, v)"

text \<open>
  \<open>json.Unmarshal\<close> into a struct with a single field: \<open>null\<close> decodes to the zero
  struct without error, an object is read member by member, anything else is a type
  error.
\<close>

definition unmarshalStruct ::
  "(json \<Rightarrow> bool \<times> 'a \<Rightarrow> bool \<times> 'a) \<Rightarrow> string \<Rightarrow> 'a \<Rightarrow> json \<Rightarrow> bool \<times> 'a" where
  "unmarshalStruct store field zero doc =
     (case doc of
        JNull \<Rightarrow> (False, zero)
      | JObject kvs \<Rightarrow>
          fold (\<lambda>(k, x) acc. if keyIs field k then store x acc else acc) kvs (False, zero)
      | _ \<Rightarrow> (True, zero))"

text \<open>
  The envelope has two fields. \<open>Payload\<close> is an \<open>any\<close>: every JSON value is stored
  there as it is (\<open>null\<close> as \<open>nil\<close>).
\<close>

definition envelopeMember ::
  "string \<times> json \<Rightarrow> bool \<times> string \<times> json \<Rightarrow> bool \<times> string \<times> json" where
  "envelopeMember m acc =
     (case (m, acc) of
        ((k, x), (err, ty, pl)) \<Rightarrow>
          if keyIs ''type'' k then (fst (storeString x (err, ty)), snd (storeString x (err, ty)), pl)
          else if keyIs ''payload'' k then (err, ty, x)
          else (err, ty, pl))"

definition unmarshalEnvelope :: "json \<Rightarrow> bool \<times> string \<times> json" where
  "unmarshalEnvelope doc =
     (case doc of
        JNull \<Rightarrow> (False, [], JNull)
      | JObject kvs \<Rightarrow> fold envelopeMember kvs (False, [], JNull)
      | _ \<Rightarrow> (True, [], JNull))"

text \<open>
  The handlers pass the payload through \<open>json.Marshal\<close> and decode the bytes again. An
  object held in an \<open>any\<close> is a Go map: a repeated key keeps its last value, and
  \<open>json.Marshal\<close> writes the keys in sorted order. Marshalling a decoded value cannot
  fail.
\<close>

definition remarshal :: "json \<Rightarrow> json" where
  "remarshal doc =
     (case doc of
        JObject kvs \<Rightarrow> JObject (sort_key fst (fold (\<lambda>(k, x). AList.update k x) kvs []))
      | _ \<Rightarrow> doc)"

definition unmarshalCreateLobby :: "json \<Rightarrow> bool \<times> string" where
  "unmarshalCreateLobby payload = unmarshalStruct storeString ''name'' [] (remarshal payload)"

definition unmarshalJoinLobby :: "json \<Rightarrow> bool \<times> string" where
  "unmarshalJoinLobby payload = unmarshalStruct storeString ''lobby_id'' [] (remarshal payload)"

definition unmarshalSetReady :: "json \<Rightarrow> bool \<times> bool" where
  "unmarshalSetReady payload = unmarshalStruct storeBool ''ready'' False (remarshal payload)"

section \<open>The handlers of Client\<close>

text \<open>
  A method mutates the lobby it is called on in place, and the hub's map holds a pointer
  to the same object. After a method call the handler's lobby is written back under its
  id, unless the hub has dropped that id meanwhile.
\<close>

definition storeLobby :: "Lobby \<Rightarrow> World \<Rightarrow> World" where
  "storeLobby l w =
     (if map_of (lobbies w) (l_id l) = None then w
      else w\<lparr>lobbies := AList.update (l_id l) l (lobbies w)\<rparr>)"

definition setLobby :: "Client \<Rightarrow> string option \<Rightarrow> World \<Rightarrow> World" where
  "setLobby c p w = w\<lparr>cur_lobby := (cur_lobby w)(c_id c := p)\<rparr>"

text \<open>
  A client's lobby pointer is set only from the results of \<open>createLobby\<close> and
  \<open>getLobby\<close>, and a lobby leaves the hub only when its last member has left, so the
  pointer of a client names a lobby of the hub; the \<open>None\<close> case of the lookup is there
  to make the functions total.
\<close>

definition handleLeaveLobby :: "Client \<Rightarrow> World \<Rightarrow> World" where
  "handleLeaveLobby c w =
     (let lobby = cur_lobby w (c_id c);
          w1 = setLobby c None w
      in case lobby of
           None \<Rightarrow> w1
         | Some p \<Rightarrow>
             (case getLobby w1 p of
                None \<Rightarrow> w1
              | Some l \<Rightarrow> (case removePlayer l c w1 of (l', w2) \<Rightarrow> storeLobby l' w2)))"

definition handleCreateLobby :: "Client \<Rightarrow> json \<Rightarrow> (nat \<Rightarrow> 8 word) \<Rightarrow> World \<Rightarrow> World" where
  "handleCreateLobby c payload rnd w =
     (case unmarshalCreateLobby payload of
        (err, nm) \<Rightarrow>
          if err \<or> nm = [] then sendError c ''invalid lobby name'' w
          else
            (case createLobby nm c rnd (handleLeaveLobby c w) of
               (lobby, w2) \<Rightarrow> sendStateToAll lobby (setLobby c (Some (l_id lobby)) w2)))"

definition handleJoinLobby :: "Client \<Rightarrow> json \<Rightarrow> World \<Rightarrow> World" where
  "handleJoinLobby c payload w =
     (case unmarshalJoinLobby payload of
        (err, p) \<Rightarrow>
          if err \<or> p = [] then sendError c ''invalid lobby id'' w
          else
            let w1 = handleLeaveLobby c w
            in case getLobby w1 p of
                 None \<Rightarrow> sendError c ''lobby not found'' w1
               | Some lobby \<Rightarrow>
                   (case addPlayer lobby c w1 of
                      (Some e, l', w2) \<Rightarrow> sendError c (errorString e) w2
                    | (None, l', w2) \<Rightarrow> setLobby c (Some (l_id l')) (storeLobby l' w2)))"

text \<open>
  \<open>handleSetReady\<close> calls \<^verbatim>\<open>json.Unmarshal(data, &p)\<close> as a statement: the error is
  dropped and \<open>p.Ready\<close> is used as the decoder left it.
\<close>

definition handleSetReady :: "Client \<Rightarrow> json \<Rightarrow> World \<Rightarrow> World" where
  "handleSetReady c payload w =
     (let p = snd (unmarshalSetReady payload)
      in case cur_lobby w (c_id c) of
           None \<Rightarrow> w
         | Some lp \<Rightarrow>
             (case getLobby w lp of
                None \<Rightarrow> w
              | Some l \<Rightarrow> (case setPlayerReady l c p w of (l', w1) \<Rightarrow> storeLobby l' w1)))"

definition handleStartGame :: "(string \<Rightarrow> string) \<Rightarrow> Client \<Rightarrow> World \<Rightarrow> World" where
  "handleStartGame tank c w =
     (case cur_lobby w (c_id c) of
        None \<Rightarrow> w
      | Some lp \<Rightarrow>
          (case getLobby w lp of
             None \<Rightarrow> w
           | Some l \<Rightarrow> (case tryStart tank l c w of (e, l', w1) \<Rightarrow> storeLobby l' w1)))"

definition logLine :: "string \<Rightarrow> World \<Rightarrow> World" where
  "logLine s w = w\<lparr>logs := logs w @ [s]\<rparr>"

text \<open>
  \<open>handleMessage\<close>: decode the envelope, log its type, switch on the type. The text of
  the decoder's error, which the first log line would print, is left out.
\<close>

definition dispatch ::
  "(string \<Rightarrow> string) \<Rightarrow> (nat \<Rightarrow> 8 word) \<Rightarrow> Client \<Rightarrow> MessageType \<Rightarrow> json \<Rightarrow> World \<Rightarrow> World" where
  "dispatch tank rnd c ty payload w =
     (if ty = MsgRequestLobbies then sendLobbyList w c
      else if ty = MsgCreateLobby then handleCreateLobby c payload rnd w
      else if ty = MsgJoinLobby then handleJoinLobby c payload w
      else if ty = MsgLeaveLobby then handleLeaveLobby c w
      else if ty = MsgSetReady then handleSetReady c payload w
      else if ty = MsgStartGame then handleStartGame tank c w
      else sendError c (''unknown message type: '' @ ty) w)"

definition handleMessage ::
  "(string \<Rightarrow> string) \<Rightarrow> (nat \<Rightarrow> 8 word) \<Rightarrow> Client \<Rightarrow> json option \<Rightarrow> World \<Rightarrow> World" where
  "handleMessage tank rnd c frame w =
     (case (case frame of None \<Rightarrow> (True, [], JNull) | Some doc \<Rightarrow> unmarshalEnvelope doc) of
        (err, ty, payload) \<Rightarrow>
          if err
          then sendError c ''invalid message format''
                 (logLine (''client '' @ c_id c @ '' invalid json'') w)
          else dispatch tank rnd c ty payload
                 (logLine (''client '' @ c_id c @ '' sent: '' @ ty) w))"

section \<open>Runs of a lobby\<close>

text \<open>
  A run of one lobby: it is created by \<open>NewLobby\<close>, then players are added and removed.
  \<open>states\<close> lists the lobby and the store before the first operation and after each
  one.
\<close>

datatype op = Add Client | Remove Client

fun step :: "op \<Rightarrow> Lobby \<times> World \<Rightarrow> Lobby \<times> World" where
  "step (Add c) (l, w) = snd (addPlayer l c w)"
| "step (Remove c) (l, w) = removePlayer l c w"

fun states :: "Lobby \<times> World \<Rightarrow> op list \<Rightarrow> (Lobby \<times> World) list" where
  "states s [] = [s]"
| "states s (x # xs) = s # states (step x s) xs"

definition keys :: "('k \<times> 'v) list \<Rightarrow> 'k set" where
  "keys m = fst ` set m"

text \<open>
  What the code maintains of a \<open>players\<close> map: its keys are distinct, as in any Go map,
  and each client is stored under its own id (\<^verbatim>\<open>l.players[c.id] = c\<close>).
\<close>

definition wf_players :: "(string \<times> Client) list \<Rightarrow> bool" where
  "wf_players ps = (distinct (map fst ps) \<and> list_all (\<lambda>(k, client). c_id client = k) ps)"

text \<open>A queue after one non-blocking send: the message is appended if there is room.\<close>

definition enqueue :: "bytes list \<Rightarrow> bytes \<Rightarrow> bytes list" where
  "enqueue q x = (if length q < sendBuffer then q @ [x] else q)"

section \<open>Example values\<close>

text \<open>
  Three clients as \<open>serveWs\<close> makes them (a 32-digit id, the name from its first six
  digits), a store with no lobby and empty channels, and lobbies built from them.
\<close>

definition alice :: Client where
  "alice = \<lparr>c_id = ''a1a1a1a1000000000000000000000001'', c_name = ''Player-a1a1a1''\<rparr>"

definition bob :: Client where
  "bob = \<lparr>c_id = ''b2b2b2b2000000000000000000000002'', c_name = ''Player-b2b2b2''\<rparr>"

definition carol :: Client where
  "carol = \<lparr>c_id = ''c3c3c3c3000000000000000000000003'', c_name = ''Player-c3c3c3''\<rparr>"

definition emptyWorld :: World where
  "emptyWorld = \<lparr>lobbies = [], chans = (\<lambda>k. []), cur_lobby = (\<lambda>k. None), logs = []\<rparr>"

definition alpha :: Lobby where
  "alpha = NewLobby ''f0f0f0f00000000000000000000000aa'' ''Alpha'' alice"

definition alphaWorld :: World where
  "alphaWorld = emptyWorld\<lparr>lobbies := [(l_id alpha, alpha)]\<rparr>"

text \<open>Alice's lobby with the \<open>state\<close> field set to each of two declared constants.\<close>

definition waitingAlpha :: Lobby where
  "waitingAlpha = alpha\<lparr>state := waiting\<rparr>"

definition startingAlpha :: Lobby where
  "startingAlpha = alpha\<lparr>state := countDown\<rparr>"

text \<open>
  Alice's lobby after bob and then carol have joined, and after carol and then bob have:
  the same three members, met by \<^verbatim>\<open>range\<close> in two of the orders Go allows.
\<close>

definition roomBC :: Lobby where
  "roomBC = fst (step (Add carol) (step (Add bob) (alpha, alphaWorld)))"

definition roomCB :: Lobby where
  "roomCB = fst (step (Add bob) (step (Add carol) (alpha, alphaWorld)))"

text \<open>The frame \<^verbatim>\<open>{"type":"set_ready","payload":{"ready":"yes"}}\<close>.\<close>

definition setReadyYes :: json where
  "setReadyYes =
     JObject [(''type'', JString ''set_ready''), (''payload'', JObject [(''ready'', JString ''yes'')])]"

text \<open>Alice's lobby in state \<open>waiting\<close> with bob as second member and both ready.\<close>

definition readyRoom :: Lobby where
  "readyRoom =
     waitingAlpha\<lparr>players := [(c_id alice, alice), (c_id bob, bob)],
                  ready := [(c_id alice, True), (c_id bob, True)]\<rparr>"

text \<open>An assignment of entity ids to members, for \<open>tryStart\<close>.\<close>

definition tankOf :: "string \<Rightarrow> string" where
  "tankOf k = ''tank-'' @ take 2 k"

definition fullWorld :: World where
  "fullWorld = emptyWorld\<lparr>chans := (\<lambda>k. replicate 64 (JSON (playerLeft carol)))\<rparr>"

section \<open>Facts about maps and queues\<close>

lemmas Msg_defs =
  MsgRequestLobbies_def MsgCreateLobby_def MsgJoinLobby_def MsgLeaveLobby_def
  MsgSetReady_def MsgStartGame_def MsgLobbyList_def MsgLobbyState_def
  MsgPlayerJoined_def MsgPlayerLeft_def MsgError_def MsgGameStarting_def

lemma keys_update: "keys (AList.update k v m) = insert k (keys m)"
  by (simp add: keys_def AList.dom_update)

lemma keys_delete: "keys (AList.delete k m) = keys m - {k}"
  by (auto simp: keys_def AList.delete_eq)

lemma map_of_keys: "k \<in> keys m \<Longrightarrow> map_of m k \<noteq> None"
  by (simp add: keys_def map_of_eq_None_iff)

lemma delete_only_key:
  assumes "keys m = {k}"
  shows "AList.delete k m = []"
proof -
  have "fst p = k" if "p \<in> set m" for p
  proof -
    from that have "fst p \<in> keys m" by (simp add: keys_def)
    with assms show ?thesis by simp
  qed
  then show ?thesis
    by (auto simp: AList.delete_eq filter_empty_conv)
qed

lemma len_update_le: "len (AList.update k v m) \<le> Suc (len m)"
proof -
  have "length (remdups (xs @ [k])) \<le> Suc (length (remdups xs))" for xs :: "'a list"
    by (induction xs) auto
  then show ?thesis by (simp add: len_def AList.update_keys)
qed

lemma len_delete_le: "len (AList.delete k m) \<le> len m"
proof -
  have "length (remdups (removeAll k xs)) \<le> length (remdups xs)" for xs :: "'a list"
    by (induction xs) auto
  then show ?thesis by (simp add: len_def AList.delete_keys)
qed

lemma wf_players_update:
  assumes "wf_players ps"
  shows "wf_players (AList.update (c_id c) c ps)"
proof -
  have "list_all (\<lambda>(k, client). c_id client = k) (AList.update (c_id c) c ps)"
    if "list_all (\<lambda>(k, client). c_id client = k) ps"
    using that by (induction ps) auto
  with assms show ?thesis
    by (simp add: wf_players_def AList.distinct_update)
qed

lemma wf_players_delete:
  assumes "wf_players ps"
  shows "wf_players (AList.delete k ps)"
proof -
  from assms have "distinct (map fst (AList.delete k ps))"
    by (simp add: wf_players_def AList.distinct_delete)
  moreover from assms have "list_all (\<lambda>(k, client). c_id client = k) (AList.delete k ps)"
    by (auto simp: wf_players_def AList.delete_eq list_all_iff)
  ultimately show ?thesis by (simp add: wf_players_def)
qed

lemma pickHost_maps: "players (pickHost l) = players l" "ready (pickHost l) = ready l"
  by (simp_all add: pickHost_def split: list.splits prod.splits)

text \<open>One send changes the queue of its addressee only.\<close>

lemma chans_sendEnvelope:
  "chans (sendEnvelope c env w) k =
     (if k = c_id c then enqueue (chans w k) (JSON env) else chans w k)"
  by (simp add: sendEnvelope_def marshal_def enqueue_def)

text \<open>
  A loop that sends to every member of a well-formed \<open>players\<close> map reaches each member
  once, whatever the order of the iteration; \<open>f\<close> gives the envelope for each key.
\<close>

lemma chans_fold_send:
  "wf_players ps \<Longrightarrow>
   chans (fold (\<lambda>(k, client). sendEnvelope client (f k)) ps w) k' =
     (if k' \<in> keys ps then enqueue (chans w k') (JSON (f k')) else chans w k')"
proof (induction ps arbitrary: w)
  case Nil
  then show ?case by (simp add: keys_def)
next
  case (Cons p ps)
  obtain k client where p: "p = (k, client)" by (cases p)
  from Cons.prems p have key: "c_id client = k" and fresh: "k \<notin> keys ps" and wf: "wf_players ps"
    by (auto simp: wf_players_def keys_def)
  let ?w1 = "sendEnvelope client (f k) w"
  have "chans (fold (\<lambda>(k, client). sendEnvelope client (f k)) (p # ps) w) k' =
        chans (fold (\<lambda>(k, client). sendEnvelope client (f k)) ps ?w1) k'"
    by (simp add: p)
  also have "\<dots> = (if k' \<in> keys ps then enqueue (chans ?w1 k') (JSON (f k')) else chans ?w1 k')"
    by (rule Cons.IH [OF wf])
  also have "\<dots> = (if k' \<in> keys (p # ps) then enqueue (chans w k') (JSON (f k')) else chans w k')"
    using fresh by (auto simp: chans_sendEnvelope key p keys_def)
  finally show ?case .
qed

lemma chans_broadcastUnlocked:
  "wf_players (players l) \<Longrightarrow>
   chans (broadcastUnlocked l env w) k =
     (if k \<in> keys (players l) then enqueue (chans w k) (JSON env) else chans w k)"
  unfolding broadcastUnlocked_def by (rule chans_fold_send)

section \<open>Sessions\<close>

subsection \<open>The outbound queue\<close>

text \<open>
  C9. \<open>sendEnvelope\<close> always returns: it is a total function whose channel operation
  is the non-blocking \<open>select\<close>. With room in the buffer the serialized envelope is
  appended to the client's queue and nothing is logged; with a full buffer the queue of
  every client is as before and the log gains the line naming the client whose message
  was dropped.
\<close>

theorem sendEnvelope_never_blocks:
  "(length (chans w (c_id c)) < sendBuffer \<longrightarrow>
      chans (sendEnvelope c env w) = (chans w)(c_id c := chans w (c_id c) @ [JSON env]) \<and>
      logs (sendEnvelope c env w) = logs w) \<and>
   (sendBuffer \<le> length (chans w (c_id c)) \<longrightarrow>
      chans (sendEnvelope c env w) = chans w \<and>
      logs (sendEnvelope c env w) =
        logs w @ [''client '' @ c_id c @ '' send buffer full, dropping''])"
  by (simp add: sendEnvelope_def marshal_def)

text \<open>
  The theorem at a client with an empty queue, and at the same client with 64 messages
  waiting.
\<close>

theorem sendEnvelope_never_blocks_witness:
  "chans (sendEnvelope alice (playerLeft bob) emptyWorld) (c_id alice) = [JSON (playerLeft bob)] \<and>
   logs (sendEnvelope alice (playerLeft bob) emptyWorld) = [] \<and>
   length (chans fullWorld (c_id alice)) = 64 \<and>
   chans (sendEnvelope alice (playerLeft bob) fullWorld) = chans fullWorld \<and>
   logs (sendEnvelope alice (playerLeft bob) fullWorld) =
     [''client a1a1a1a1000000000000000000000001 send buffer full, dropping'']"
proof -
  have room: "length (chans emptyWorld (c_id alice)) < sendBuffer"
    by (simp add: emptyWorld_def sendBuffer_def)
  have full: "sendBuffer \<le> length (chans fullWorld (c_id alice))"
    by (simp add: fullWorld_def sendBuffer_def)
  from room sendEnvelope_never_blocks [of emptyWorld alice "playerLeft bob"]
  have "chans (sendEnvelope alice (playerLeft bob) emptyWorld) (c_id alice) = [JSON (playerLeft bob)]"
    and "logs (sendEnvelope alice (playerLeft bob) emptyWorld) = []"
    by (simp_all add: emptyWorld_def)
  moreover from full sendEnvelope_never_blocks [of fullWorld alice "playerLeft bob"]
  have "chans (sendEnvelope alice (playerLeft bob) fullWorld) = chans fullWorld"
    and "logs (sendEnvelope alice (playerLeft bob) fullWorld) =
      [''client a1a1a1a1000000000000000000000001 send buffer full, dropping'']"
    by (simp_all add: fullWorld_def emptyWorld_def alice_def)
  moreover have "length (chans fullWorld (c_id alice)) = 64"
    by (simp add: fullWorld_def)
  ultimately show ?thesis by simp
qed

subsection \<open>Ids and display names\<close>

lemma hi_nibble: "unat (drop_bit 4 (b :: 8 word)) < 16"
proof -
  have "unat b < 2 ^ 8" using unsigned_less [of b] by simp
  then have "unat b div 16 < 16" by simp
  then show ?thesis by (simp add: drop_bit_eq_div unat_div)
qed

lemma lo_nibble: "unat ((b :: 8 word) AND 0x0f) < 16"
proof -
  have "(b AND 0x0f) = take_bit 4 b"
    by (simp add: take_bit_eq_mask mask_eq_exp_minus_1)
  moreover have "unat b mod 16 < 16" by simp
  ultimately show ?thesis by (simp add: take_bit_eq_mod unat_mod)
qed

lemma hextable_nth: "n < 16 \<Longrightarrow> hextable ! n \<in> set hextable"
  by (rule nth_mem) (simp add: hextable_def)

lemma length_hexByte: "length (hexByte b) = 2"
  by (simp add: hexByte_def)

lemma set_hexByte: "set (hexByte b) \<subseteq> set hextable"
  using hextable_nth [OF hi_nibble [of b]] hextable_nth [OF lo_nibble [of b]]
  by (simp add: hexByte_def)

lemma length_EncodeToString: "length (EncodeToString bs) = 2 * length bs"
  by (induction bs) (simp_all add: EncodeToString_def length_hexByte)

lemma set_EncodeToString: "set (EncodeToString bs) \<subseteq> set hextable"
  using set_hexByte by (auto simp: EncodeToString_def)

lemma length_generateID: "length (generateID rnd) = 32"
  by (simp add: generateID_def length_EncodeToString)

text \<open>
  C10. For an id of at least six characters \<open>NewClient\<close> returns the client whose name
  is \<open>Player-\<close> followed by the first six characters of the id; for a shorter id the
  slice expression panics. Whatever bytes the entropy source delivers, \<open>generateID\<close>
  returns 32 characters, all of them hexadecimal digits, so \<open>NewClient\<close> of a generated
  id does not panic.
\<close>

theorem NewClient_name:
  "(6 \<le> length ident \<longrightarrow>
      NewClient ident = Inr \<lparr>c_id = ident, c_name = ''Player-'' @ take 6 ident\<rparr> \<and>
      length (take 6 ident) = 6) \<and>
   (length ident < 6 \<longrightarrow> NewClient ident = Inl SliceOutOfRange) \<and>
   length (generateID rnd) = 32 \<and>
   set (generateID rnd) \<subseteq> set ''0123456789abcdef'' \<and>
   NewClient (generateID rnd) =
     Inr \<lparr>c_id = generateID rnd, c_name = ''Player-'' @ take 6 (generateID rnd)\<rparr>"
proof -
  have "set (generateID rnd) \<subseteq> set ''0123456789abcdef''"
    using set_EncodeToString [of "map rnd [0..<16]"] by (simp only: generateID_def hextable_def)
  then show ?thesis
    by (simp add: NewClient_def length_generateID)
qed

text \<open>
  The theorem at alice's id, at a three-character id, and at the id generated from
  sixteen bytes \<open>0xa1\<close>.
\<close>

theorem NewClient_name_witness:
  "NewClient ''a1a1a1a1000000000000000000000001'' = Inr alice \<and>
   NewClient ''abc'' = Inl SliceOutOfRange \<and>
   generateID (\<lambda>i. 161) = ''a1a1a1a1a1a1a1a1a1a1a1a1a1a1a1a1'' \<and>
   NewClient (generateID (\<lambda>i. 161)) =
     Inr \<lparr>c_id = ''a1a1a1a1a1a1a1a1a1a1a1a1a1a1a1a1'', c_name = ''Player-a1a1a1''\<rparr>"
proof -
  have gen: "generateID (\<lambda>i. 161) = ''a1a1a1a1a1a1a1a1a1a1a1a1a1a1a1a1''"
    by (simp add: generateID_def EncodeToString_def hexByte_def hextable_def
        upt_rec [of _ "numeral n" for n] drop_bit_eq_div)
  have long: "6 \<le> length ''a1a1a1a1000000000000000000000001''" by simp
  have short: "length ''abc'' < 6" by simp
  from long NewClient_name [of "''a1a1a1a1000000000000000000000001''" "\<lambda>i. 161"]
  have "NewClient ''a1a1a1a1000000000000000000000001'' = Inr alice"
    by (simp add: alice_def)
  moreover from short NewClient_name [of "''abc''" "\<lambda>i. 161"]
  have "NewClient ''abc'' = Inl SliceOutOfRange" by simp
  moreover from NewClient_name [of "''abc''" "\<lambda>i. 161"]
  have "NewClient (generateID (\<lambda>i. 161)) =
     Inr \<lparr>c_id = ''a1a1a1a1a1a1a1a1a1a1a1a1a1a1a1a1'', c_name = ''Player-a1a1a1''\<rparr>"
    by (simp add: gen)
  ultimately show ?thesis using gen by simp
qed

section \<open>Rooms\<close>

lemma roomBC_eq:
  "roomBC = alpha\<lparr>players := [(c_id alice, alice), (c_id bob, bob), (c_id carol, carol)],
                  ready := [(c_id alice, False), (c_id bob, False), (c_id carol, False)]\<rparr>"
  by (simp add: roomBC_def addPlayer_def len_def maxPlayersPerLobby_def Let_def
      alpha_def NewLobby_def alice_def bob_def carol_def)

lemma roomCB_eq:
  "roomCB = alpha\<lparr>players := [(c_id alice, alice), (c_id carol, carol), (c_id bob, bob)],
                  ready := [(c_id alice, False), (c_id carol, False), (c_id bob, False)]\<rparr>"
  by (simp add: roomCB_def addPlayer_def len_def maxPlayersPerLobby_def Let_def
      alpha_def NewLobby_def alice_def bob_def carol_def)

subsection \<open>Creation\<close>

text \<open>
  C7. The lobby \<open>createLobby\<close> returns has the host's id as \<open>hostID\<close>, the host as its
  only member and the host's ready flag false, as the claim says. Its \<open>state\<close> is the
  zero value of \<open>GameState\<close>, the empty string, and not the constant \<open>waiting\<close>:
  \<open>NewLobby\<close> does not set the field.
\<close>

theorem createLobby_leaves_state_unset:
  "state (fst (createLobby nm host rnd w)) = [] \<and>
   state (fst (createLobby nm host rnd w)) \<noteq> waiting \<and>
   hostID (fst (createLobby nm host rnd w)) = c_id host \<and>
   players (fst (createLobby nm host rnd w)) = [(c_id host, host)] \<and>
   ready (fst (createLobby nm host rnd w)) = [(c_id host, False)]"
  by (simp add: createLobby_def Let_def NewLobby_def waiting_def)

subsection \<open>Joining: the failures\<close>

text \<open>
  What \<open>addPlayer\<close> checks, in the order of the code: the flag \<^verbatim>\<open>l.inGame\<close>, the
  number of members, the presence of the id. Each failure returns before anything is
  written, so a failing call leaves the lobby and the store as they were.
\<close>

lemma addPlayer_failures:
  "(inGame_flag l \<longrightarrow> addPlayer l c w = (Some GameInProgress, l, w)) \<and>
   (\<not> inGame_flag l \<and> 4 \<le> len (players l) \<longrightarrow> addPlayer l c w = (Some RoomFull, l, w)) \<and>
   (\<not> inGame_flag l \<and> len (players l) < 4 \<and> c_id c \<in> keys (players l) \<longrightarrow>
      addPlayer l c w = (Some AlreadyMember, l, w)) \<and>
   (fst (addPlayer l c w) \<noteq> None \<longrightarrow> snd (addPlayer l c w) = (l, w))"
  by (auto simp: addPlayer_def maxPlayersPerLobby_def Let_def keys_def map_of_eq_None_iff)

text \<open>
  C1. The checks for a full lobby and for a present id, and the absence of any effect of
  a failing call, are as the claim says (\<open>addPlayer_failures\<close>). The first check is not:
  \<open>addPlayer\<close> never reads \<open>state\<close>. Alice's lobby as \<open>NewLobby\<close> made it, whose
  \<open>state\<close> is the empty string, and the same lobby with \<open>state\<close> set to \<open>countDown\<close>
  are both in a state other than \<open>waiting\<close>, and both accept bob: the call returns
  \<open>nil\<close> and bob is in both maps.
\<close>

theorem addPlayer_does_not_read_state:
  "state alpha \<noteq> waiting \<and>
   fst (addPlayer alpha bob alphaWorld) = None \<and>
   players (fst (snd (addPlayer alpha bob alphaWorld))) =
     [(c_id alice, alice), (c_id bob, bob)] \<and>
   state startingAlpha = countDown \<and> state startingAlpha \<noteq> waiting \<and>
   fst (addPlayer startingAlpha bob alphaWorld) = None \<and>
   players (fst (snd (addPlayer startingAlpha bob alphaWorld))) =
     [(c_id alice, alice), (c_id bob, bob)] \<and>
   ready (fst (snd (addPlayer startingAlpha bob alphaWorld))) =
     [(c_id alice, False), (c_id bob, False)]"
  by (simp add: startingAlpha_def addPlayer_def len_def maxPlayersPerLobby_def Let_def
      alpha_def NewLobby_def alice_def bob_def countDown_def waiting_def)

subsection \<open>Joining: the notifications\<close>

text \<open>
  A successful \<open>addPlayer\<close> on a well-formed lobby appends the client to \<open>players\<close>
  with ready flag false. The broadcast of \<open>player_joined\<close> runs over the map that already
  holds the new client, so the new client's queue receives \<open>player_joined\<close> and then
  \<open>lobby_state\<close>; every earlier member's queue receives \<open>player_joined\<close>; no other queue
  changes.
\<close>

lemma addPlayer_success:
  assumes "wf_players (players l)" and "fst (addPlayer l c w) = None"
  shows "players (fst (snd (addPlayer l c w))) = players l @ [(c_id c, c)]"
    and "map_of (ready (fst (snd (addPlayer l c w)))) (c_id c) = Some False"
    and "chans (snd (snd (addPlayer l c w))) k =
          (if k = c_id c
           then enqueue (enqueue (chans w k) (JSON (playerJoined c)))
                  (JSON (lobbyState (fst (snd (addPlayer l c w))) c))
           else if k \<in> keys (players l) then enqueue (chans w k) (JSON (playerJoined c))
           else chans w k)"
proof -
  let ?l1 = "l\<lparr>players := AList.update (c_id c) c (players l),
               ready := AList.update (c_id c) False (ready l)\<rparr>"
  from assms(2) have new: "map_of (players l) (c_id c) = None"
    by (auto simp: addPlayer_def Let_def split: if_splits)
  from assms(2) have eq: "addPlayer l c w =
      (None, ?l1, sendStateToClientUnlocked ?l1 c (broadcastUnlocked ?l1 (playerJoined c) w))"
    by (auto simp: addPlayer_def Let_def split: if_splits)
  have "AList.update k v m = m @ [(k, v)]" if "map_of m k = None"
    for m :: "(string \<times> Client) list" and k v
    using that by (induction m) (auto split: if_splits)
  with new have app: "AList.update (c_id c) c (players l) = players l @ [(c_id c, c)]" by simp
  from eq app show "players (fst (snd (addPlayer l c w))) = players l @ [(c_id c, c)]" by simp
  from eq show "map_of (ready (fst (snd (addPlayer l c w)))) (c_id c) = Some False"
    by (simp add: AList.update_conv')
  have wf1: "wf_players (players ?l1)"
    using wf_players_update [OF assms(1), of c] by simp
  show "chans (snd (snd (addPlayer l c w))) k =
          (if k = c_id c
           then enqueue (enqueue (chans w k) (JSON (playerJoined c)))
                  (JSON (lobbyState (fst (snd (addPlayer l c w))) c))
           else if k \<in> keys (players l) then enqueue (chans w k) (JSON (playerJoined c))
           else chans w k)"
    by (simp add: eq sendStateToClientUnlocked_def chans_sendEnvelope
        chans_broadcastUnlocked [OF wf1] keys_update)
qed

text \<open>
  C4. Bob joins alice's lobby, which is in state \<open>waiting\<close>, has one member and does not
  hold bob. The call succeeds and alice's queue receives \<open>player_joined\<close>, as the claim
  says. Bob's queue receives two messages, first the \<open>player_joined\<close> notice about
  himself and then the \<open>lobby_state\<close> snapshot; the claim says the joining session does
  not receive the notice.
\<close>

theorem addPlayer_notifies_joiner:
  "state waitingAlpha = waiting \<and> len (players waitingAlpha) < 4 \<and>
   map_of (players waitingAlpha) (c_id bob) = None \<and>
   fst (addPlayer waitingAlpha bob alphaWorld) = None \<and>
   chans (snd (snd (addPlayer waitingAlpha bob alphaWorld))) (c_id alice) =
     [JSON (playerJoined bob)] \<and>
   chans (snd (snd (addPlayer waitingAlpha bob alphaWorld))) (c_id bob) =
     [JSON (playerJoined bob),
      JSON (lobbyState (fst (snd (addPlayer waitingAlpha bob alphaWorld))) bob)]"
  by (simp add: waitingAlpha_def addPlayer_def len_def maxPlayersPerLobby_def Let_def
      NewLobby_def broadcastUnlocked_def sendStateToClientUnlocked_def sendEnvelope_def
      marshal_def sendBuffer_def alphaWorld_def emptyWorld_def alpha_def alice_def bob_def)

subsection \<open>Invariants of a run\<close>

lemma NewLobby_inv: "keys (ready (NewLobby i n h)) \<subseteq> keys (players (NewLobby i n h))"
  by (simp add: NewLobby_def keys_def)

lemma addPlayer_inv:
  assumes "keys (ready l) \<subseteq> keys (players l)"
  shows "keys (ready (fst (snd (addPlayer l c w)))) \<subseteq> keys (players (fst (snd (addPlayer l c w))))"
  using assms by (auto simp: addPlayer_def Let_def keys_update)

lemma removePlayer_inv:
  assumes "keys (ready l) \<subseteq> keys (players l)"
  shows "keys (ready (fst (removePlayer l c w))) \<subseteq> keys (players (fst (removePlayer l c w)))"
  using assms by (auto simp: removePlayer_def Let_def keys_delete pickHost_maps)

lemma step_inv:
  assumes "keys (ready (fst s)) \<subseteq> keys (players (fst s))"
  shows "keys (ready (fst (step x s))) \<subseteq> keys (players (fst (step x s)))"
proof (cases s)
  case (Pair l w)
  with assms show ?thesis
    by (cases x) (simp_all add: addPlayer_inv removePlayer_inv)
qed

lemma states_inv:
  "keys (ready (fst s)) \<subseteq> keys (players (fst s)) \<Longrightarrow>
   \<forall>t \<in> set (states s xs). keys (ready (fst t)) \<subseteq> keys (players (fst t))"
proof (induction xs arbitrary: s)
  case Nil
  then show ?case by simp
next
  case (Cons x xs)
  from Cons.prems have "keys (ready (fst (step x s))) \<subseteq> keys (players (fst (step x s)))"
    by (rule step_inv)
  then have "\<forall>t \<in> set (states (step x s) xs). keys (ready (fst t)) \<subseteq> keys (players (fst t))"
    by (rule Cons.IH)
  with Cons.prems show ?case by simp
qed

text \<open>
  C2. In every run of a lobby (created by \<open>NewLobby\<close>, then any sequence of
  \<open>addPlayer\<close> and \<open>removePlayer\<close> calls, failing ones included, in any store), the
  keys of \<open>ready\<close> are among the keys of \<open>players\<close> in the initial state and after
  every operation.
\<close>

theorem ready_keys_subset_members:
  "\<forall>t \<in> set (states (NewLobby ident nm host, w) xs).
     keys (ready (fst t)) \<subseteq> keys (players (fst t))"
  by (rule states_inv) (simp add: NewLobby_inv)

text \<open>
  The theorem at the run in which bob and carol join alice's lobby and alice leaves: the
  last state has bob and carol in both maps.
\<close>

theorem ready_keys_subset_members_witness:
  "map fst (players (fst (last (states (alpha, alphaWorld) [Add bob, Add carol, Remove alice])))) =
     [c_id bob, c_id carol] \<and>
   map fst (ready (fst (last (states (alpha, alphaWorld) [Add bob, Add carol, Remove alice])))) =
     [c_id bob, c_id carol] \<and>
   keys (ready (fst (last (states (alpha, alphaWorld) [Add bob, Add carol, Remove alice]))))
     \<subseteq> keys (players (fst (last (states (alpha, alphaWorld) [Add bob, Add carol, Remove alice]))))"
proof -
  let ?run = "states (alpha, alphaWorld) [Add bob, Add carol, Remove alice]"
  have mem: "last ?run \<in> set ?run"
    by (rule last_in_set) simp
  have "\<forall>t \<in> set ?run. keys (ready (fst t)) \<subseteq> keys (players (fst t))"
    unfolding alpha_def by (rule ready_keys_subset_members)
  with mem have sub: "keys (ready (fst (last ?run))) \<subseteq> keys (players (fst (last ?run)))"
    by blast
  have "fst (last ?run) =
    alpha\<lparr>hostID := c_id bob,
          players := [(c_id bob, bob), (c_id carol, carol)],
          ready := [(c_id bob, False), (c_id carol, False)]\<rparr>"
    by (simp add: addPlayer_def removePlayer_def pickHost_def len_def maxPlayersPerLobby_def
        Let_def alpha_def NewLobby_def alice_def bob_def carol_def)
  with sub show ?thesis by simp
qed

text \<open>
  Along the same runs the \<open>players\<close> map stays well formed and never holds more than
  four members.
\<close>

lemma addPlayer_wf:
  "wf_players (players l) \<Longrightarrow> wf_players (players (fst (snd (addPlayer l c w))))"
  by (auto simp: addPlayer_def Let_def wf_players_update)

lemma removePlayer_wf:
  "wf_players (players l) \<Longrightarrow> wf_players (players (fst (removePlayer l c w)))"
  by (auto simp: removePlayer_def Let_def wf_players_delete pickHost_maps)

lemma addPlayer_len:
  "len (players l) \<le> 4 \<Longrightarrow> len (players (fst (snd (addPlayer l c w)))) \<le> 4"
  using len_update_le [of "c_id c" c "players l"]
  by (auto simp: addPlayer_def Let_def maxPlayersPerLobby_def)

lemma removePlayer_len:
  "len (players l) \<le> 4 \<Longrightarrow> len (players (fst (removePlayer l c w))) \<le> 4"
  using len_delete_le [of "c_id c" "players l"]
  by (auto simp: removePlayer_def Let_def pickHost_maps)

lemma run_invariants:
  "wf_players (players (fst s)) \<and> len (players (fst s)) \<le> 4 \<Longrightarrow>
   list_all (\<lambda>t. wf_players (players (fst t)) \<and> len (players (fst t)) \<le> 4) (states s xs)"
proof (induction xs arbitrary: s)
  case Nil
  then show ?case by simp
next
  case (Cons x xs)
  obtain l w where s: "s = (l, w)" by (cases s)
  from Cons.prems s
  have "wf_players (players (fst (step x s))) \<and> len (players (fst (step x s))) \<le> 4"
    by (cases x) (simp_all add: addPlayer_wf removePlayer_wf addPlayer_len removePlayer_len)
  then have "list_all (\<lambda>t. wf_players (players (fst t)) \<and> len (players (fst t)) \<le> 4)
      (states (step x s) xs)"
    by (rule Cons.IH)
  with Cons.prems show ?case by simp
qed

lemma member_count_bounded:
  "list_all (\<lambda>t. wf_players (players (fst t)) \<and> len (players (fst t)) \<le> 4)
     (states (NewLobby ident nm host, w) xs)"
  by (rule run_invariants) (simp add: NewLobby_def wf_players_def len_def)

subsection \<open>Leaving\<close>

text \<open>
  C5. When the only key of \<open>players\<close> is the session's id, \<open>removePlayer\<close> deletes the
  lobby's id from the hub, so \<open>getLobby\<close> of that id gives \<open>nil\<close> afterwards, and it
  sends nothing: every client's queue is as before (no \<open>player_left\<close>, no
  \<open>lobby_state\<close>).
\<close>

theorem last_member_removes_lobby:
  assumes "keys (players l) = {c_id c}"
  shows "getLobby (snd (removePlayer l c w)) (l_id l) = None \<and>
         chans (snd (removePlayer l c w)) = chans w"
proof -
  from assms have "c_id c \<in> keys (players l)" by simp
  then have present: "map_of (players l) (c_id c) \<noteq> None" by (rule map_of_keys)
  from assms have gone: "AList.delete (c_id c) (players l) = []" by (rule delete_only_key)
  from present gone have "snd (removePlayer l c w) = removeLobby (l_id l) w"
    by (auto simp: removePlayer_def Let_def len_def)
  then show ?thesis
    by (simp add: removeLobby_def getLobby_def AList.delete_conv)
qed

text \<open>The theorem at alice's lobby, registered in the hub, when alice leaves.\<close>

theorem last_member_removes_lobby_witness:
  "keys (players alpha) = {c_id alice} \<and>
   getLobby alphaWorld (l_id alpha) = Some alpha \<and>
   getLobby (snd (removePlayer alpha alice alphaWorld)) (l_id alpha) = None \<and>
   chans (snd (removePlayer alpha alice alphaWorld)) = chans alphaWorld"
proof -
  have h: "keys (players alpha) = {c_id alice}"
    by (simp add: alpha_def NewLobby_def keys_def)
  have "getLobby alphaWorld (l_id alpha) = Some alpha"
    by (simp add: alphaWorld_def getLobby_def emptyWorld_def)
  with h last_member_removes_lobby [OF h, of alphaWorld] show ?thesis by simp
qed

text \<open>
  C6, as the claim states it, fails. \<open>roomBC\<close> and \<open>roomCB\<close> are the same room: alice
  is the host, the \<open>players\<close> and \<open>ready\<close> maps hold the same bindings, and only the
  order in which the maps are iterated differs. Removing alice leaves the same set of
  ids in both, bob's and carol's; the first lobby makes bob the host, the second carol.
\<close>

theorem new_host_depends_on_iteration_order:
  "hostID roomBC = c_id alice \<and> hostID roomCB = c_id alice \<and>
   map_of (players roomBC) = map_of (players roomCB) \<and>
   map_of (ready roomBC) = map_of (ready roomCB) \<and>
   keys (players (fst (removePlayer roomBC alice alphaWorld))) = {c_id bob, c_id carol} \<and>
   keys (players (fst (removePlayer roomCB alice alphaWorld))) = {c_id bob, c_id carol} \<and>
   hostID (fst (removePlayer roomBC alice alphaWorld)) = c_id bob \<and>
   hostID (fst (removePlayer roomCB alice alphaWorld)) = c_id carol \<and>
   c_id bob \<noteq> c_id carol"
proof -
  have "map_of (players roomBC) = map_of (players roomCB)"
    and "map_of (ready roomBC) = map_of (ready roomCB)"
    by (auto simp: roomBC_eq roomCB_eq fun_eq_iff alice_def bob_def carol_def)
  then show ?thesis
    by (simp add: roomBC_eq roomCB_eq removePlayer_def pickHost_def len_def Let_def keys_def
        alpha_def NewLobby_def alice_def bob_def carol_def insert_commute)
qed

text \<open>
  C6, amended. When the host is removed and other members remain, the new host is one of
  the remaining members: the one whose key the iteration over the remaining \<open>players\<close>
  map yields first. The choice is a function of that iteration order.
\<close>

theorem new_host_is_first_remaining_key:
  assumes "hostID l = c_id c" and "c_id c \<in> keys (players l)" and "keys (players l) \<noteq> {c_id c}"
  shows "players (fst (removePlayer l c w)) = AList.delete (c_id c) (players l) \<and>
         players (fst (removePlayer l c w)) \<noteq> [] \<and>
         hostID (fst (removePlayer l c w)) = fst (hd (players (fst (removePlayer l c w)))) \<and>
         hostID (fst (removePlayer l c w)) \<in> keys (players l) - {c_id c}"
proof -
  let ?rest = "AList.delete (c_id c) (players l)"
  from assms(2) have present: "map_of (players l) (c_id c) \<noteq> None" by (rule map_of_keys)
  from assms(2,3) have "keys ?rest \<noteq> {}" by (auto simp: keys_delete)
  then have ne: "?rest \<noteq> []" by (auto simp: keys_def)
  then have len: "len ?rest \<noteq> 0" by (simp add: len_def)
  from ne obtain k v rest where rest: "?rest = (k, v) # rest"
    by (cases ?rest) auto
  then have "k \<in> keys ?rest" by (simp add: keys_def)
  then have k: "k \<in> keys (players l) - {c_id c}" by (simp add: keys_delete)
  from present len rest assms(1)
  have "fst (removePlayer l c w) =
      l\<lparr>players := ?rest, ready := AList.delete (c_id c) (ready l), hostID := k\<rparr>"
    by (auto simp: removePlayer_def Let_def pickHost_def)
  with rest k show ?thesis by simp
qed

text \<open>The theorem at \<open>roomCB\<close> when alice, its host, leaves: carol becomes the host.\<close>

theorem new_host_is_first_remaining_key_witness:
  "hostID roomCB = c_id alice \<and> c_id alice \<in> keys (players roomCB) \<and>
   keys (players roomCB) \<noteq> {c_id alice} \<and>
   players (fst (removePlayer roomCB alice alphaWorld)) = [(c_id carol, carol), (c_id bob, bob)] \<and>
   hostID (fst (removePlayer roomCB alice alphaWorld)) = c_id carol"
proof -
  have h1: "hostID roomCB = c_id alice"
    by (simp add: roomCB_eq alpha_def NewLobby_def)
  have h2: "c_id alice \<in> keys (players roomCB)"
    by (simp add: roomCB_eq keys_def)
  have h3: "keys (players roomCB) \<noteq> {c_id alice}"
    by (simp add: roomCB_eq keys_def alice_def bob_def carol_def)
  have "AList.delete (c_id alice) (players roomCB) = [(c_id carol, carol), (c_id bob, bob)]"
    by (simp add: roomCB_eq alice_def bob_def carol_def)
  with new_host_is_first_remaining_key [OF h1 h2 h3, of alphaWorld] h1 h2 h3
  show ?thesis by simp
qed

section \<open>Starting a game\<close>

lemma tryStart_success_iff:
  "fst (tryStart tank l c w) = None \<longleftrightarrow> c_id c = hostID l \<and> state l = waiting \<and> allReady l"
  by (simp add: tryStart_def startFailure_def Let_def)

text \<open>
  C3, for \<open>tryStart\<close> as the spec describes it and a well-formed lobby. The call succeeds
  exactly when the requester is the host, the state is \<open>waiting\<close> and every member is
  ready. On success the lobby differs from the old one in its state alone, which is
  \<open>countDown\<close>, and exactly the members' queues receive \<open>game_starting\<close>. A requester
  who is not the host gets \<open>NotHost\<close>; the host in another state gets the state error;
  the host of a waiting lobby with an unready member gets \<open>NotAllReady\<close>. On every
  failure the lobby is unchanged and only the requester's queue receives the error
  envelope.
\<close>

theorem tryStart_contract:
  assumes "wf_players (players l)"
  shows
  "(fst (tryStart tank l c w) = None \<longleftrightarrow>
      c_id c = hostID l \<and> state l = waiting \<and> allReady l) \<and>
   (fst (tryStart tank l c w) = None \<longrightarrow>
      fst (snd (tryStart tank l c w)) = l\<lparr>state := countDown\<rparr> \<and>
      (\<forall>k. chans (snd (snd (tryStart tank l c w))) k =
         (if k \<in> keys (players l)
          then enqueue (chans w k) (JSON (gameStarting tank k)) else chans w k))) \<and>
   (c_id c \<noteq> hostID l \<longrightarrow> fst (tryStart tank l c w) = Some NotHost) \<and>
   (c_id c = hostID l \<and> state l \<noteq> waiting \<longrightarrow> fst (tryStart tank l c w) = Some NotWaiting) \<and>
   (c_id c = hostID l \<and> state l = waiting \<and> \<not> allReady l \<longrightarrow>
      fst (tryStart tank l c w) = Some NotAllReady) \<and>
   (\<forall>e. fst (tryStart tank l c w) = Some e \<longrightarrow>
      fst (snd (tryStart tank l c w)) = l \<and>
      (\<forall>k. chans (snd (snd (tryStart tank l c w))) k =
         (if k = c_id c
          then enqueue (chans w k) (JSON (Envelope MsgError (ErrorPayload (startErrorString e))))
          else chans w k)))"
proof -
  have ok: "fst (snd (tryStart tank l c w)) = l\<lparr>state := countDown\<rparr> \<and>
      (\<forall>k. chans (snd (snd (tryStart tank l c w))) k =
         (if k \<in> keys (players l)
          then enqueue (chans w k) (JSON (gameStarting tank k)) else chans w k))"
    if "fst (tryStart tank l c w) = None"
  proof -
    from that have "c_id c = hostID l \<and> state l = waiting \<and> allReady l"
      by (simp add: tryStart_success_iff)
    then have "tryStart tank l c w =
      (None, l\<lparr>state := countDown\<rparr>,
       fold (\<lambda>(k, client). sendEnvelope client (gameStarting tank k)) (players l) w)"
      by (simp add: tryStart_def Let_def)
    then show ?thesis
      using chans_fold_send [OF assms, of "gameStarting tank" w] by simp
  qed
  have bad: "fst (snd (tryStart tank l c w)) = l \<and>
      (\<forall>k. chans (snd (snd (tryStart tank l c w))) k =
         (if k = c_id c
          then enqueue (chans w k) (JSON (Envelope MsgError (ErrorPayload (startErrorString e))))
          else chans w k))"
    if "fst (tryStart tank l c w) = Some e" for e
  proof -
    from that have "tryStart tank l c w = startFailure e l c w"
      by (auto simp: tryStart_def startFailure_def Let_def split: if_splits)
    then show ?thesis
      by (simp add: startFailure_def sendError_def chans_sendEnvelope)
  qed
  have errs: "(c_id c \<noteq> hostID l \<longrightarrow> fst (tryStart tank l c w) = Some NotHost) \<and>
   (c_id c = hostID l \<and> state l \<noteq> waiting \<longrightarrow> fst (tryStart tank l c w) = Some NotWaiting) \<and>
   (c_id c = hostID l \<and> state l = waiting \<and> \<not> allReady l \<longrightarrow>
      fst (tryStart tank l c w) = Some NotAllReady)"
    by (simp add: tryStart_def startFailure_def)
  from ok bad errs tryStart_success_iff [of tank l c w] show ?thesis by blast
qed

text \<open>
  The theorem at \<open>readyRoom\<close>: alice, the host, starts the game and both queues receive
  \<open>game_starting\<close>; bob's request fails with \<open>NotHost\<close>, the lobby is as before, bob's
  queue receives the error and alice's queue nothing.
\<close>

theorem tryStart_contract_witness:
  "wf_players (players readyRoom) \<and>
   fst (tryStart tankOf readyRoom alice alphaWorld) = None \<and>
   state (fst (snd (tryStart tankOf readyRoom alice alphaWorld))) = countDown \<and>
   chans (snd (snd (tryStart tankOf readyRoom alice alphaWorld))) (c_id alice) =
     [JSON (Envelope MsgGameStarting (GameStartingPayload ''tank-a1''))] \<and>
   chans (snd (snd (tryStart tankOf readyRoom alice alphaWorld))) (c_id bob) =
     [JSON (Envelope MsgGameStarting (GameStartingPayload ''tank-b2''))] \<and>
   fst (tryStart tankOf readyRoom bob alphaWorld) = Some NotHost \<and>
   fst (snd (tryStart tankOf readyRoom bob alphaWorld)) = readyRoom \<and>
   chans (snd (snd (tryStart tankOf readyRoom bob alphaWorld))) (c_id alice) = [] \<and>
   chans (snd (snd (tryStart tankOf readyRoom bob alphaWorld))) (c_id bob) =
     [JSON (Envelope MsgError (ErrorPayload ''NotHost''))]"
proof -
  have wf: "wf_players (players readyRoom)"
    by (simp add: wf_players_def readyRoom_def alice_def bob_def)
  have host: "c_id alice = hostID readyRoom \<and> state readyRoom = waiting \<and> allReady readyRoom"
    by (simp add: readyRoom_def waitingAlpha_def alpha_def NewLobby_def allReady_def ready_of_def
        alice_def bob_def)
  have guest: "c_id bob \<noteq> hostID readyRoom"
    by (simp add: readyRoom_def waitingAlpha_def alpha_def NewLobby_def alice_def bob_def)
  have mem: "keys (players readyRoom) = {c_id alice, c_id bob}"
    by (simp add: readyRoom_def keys_def)
  have empty: "chans alphaWorld = (\<lambda>k. [])"
    by (simp add: alphaWorld_def emptyWorld_def)
  note A = tryStart_contract [OF wf, of tankOf alice alphaWorld]
  note B = tryStart_contract [OF wf, of tankOf bob alphaWorld]
  from A host have a0: "fst (tryStart tankOf readyRoom alice alphaWorld) = None" by blast
  with A have a1: "fst (snd (tryStart tankOf readyRoom alice alphaWorld)) = readyRoom\<lparr>state := countDown\<rparr>"
    and a2: "\<And>k. chans (snd (snd (tryStart tankOf readyRoom alice alphaWorld))) k =
         (if k \<in> keys (players readyRoom)
          then enqueue (chans alphaWorld k) (JSON (gameStarting tankOf k)) else chans alphaWorld k)"
    by blast+
  from B guest have b0: "fst (tryStart tankOf readyRoom bob alphaWorld) = Some NotHost" by blast
  with B have b1: "fst (snd (tryStart tankOf readyRoom bob alphaWorld)) = readyRoom"
    and b2: "\<And>k. chans (snd (snd (tryStart tankOf readyRoom bob alphaWorld))) k =
         (if k = c_id bob
          then enqueue (chans alphaWorld k)
                 (JSON (Envelope MsgError (ErrorPayload (startErrorString NotHost))))
          else chans alphaWorld k)"
    by blast+
  have ne: "c_id alice \<noteq> c_id bob" by (simp add: alice_def bob_def)
  have a3: "chans (snd (snd (tryStart tankOf readyRoom alice alphaWorld))) (c_id alice) =
      [JSON (gameStarting tankOf (c_id alice))]"
    by (simp add: a2 mem empty enqueue_def sendBuffer_def)
  have a4: "chans (snd (snd (tryStart tankOf readyRoom alice alphaWorld))) (c_id bob) =
      [JSON (gameStarting tankOf (c_id bob))]"
    by (simp add: a2 mem empty enqueue_def sendBuffer_def)
  have b3: "chans (snd (snd (tryStart tankOf readyRoom bob alphaWorld))) (c_id alice) = []"
    using ne by (simp add: b2 empty)
  have b4: "chans (snd (snd (tryStart tankOf readyRoom bob alphaWorld))) (c_id bob) =
      [JSON (Envelope MsgError (ErrorPayload ''NotHost''))]"
    by (simp add: b2 empty enqueue_def sendBuffer_def)
  have "gameStarting tankOf (c_id alice) = Envelope MsgGameStarting (GameStartingPayload ''tank-a1'')"
    and "gameStarting tankOf (c_id bob) = Envelope MsgGameStarting (GameStartingPayload ''tank-b2'')"
    by (simp_all add: gameStarting_def tankOf_def alice_def bob_def)
  with wf a0 a1 b0 b1 a3 a4 b3 b4 show ?thesis by simp
qed

section \<open>The dispatcher\<close>

text \<open>
  Where \<open>handleMessage\<close> does answer with an error envelope: a frame that does not decode
  into an envelope, a type outside the six client-to-server types, and a
  \<open>create_lobby\<close> or \<open>join_lobby\<close> payload that fails to decode or lacks its field. In
  each case the sender's queue, and no other, receives the envelope.
\<close>

lemma handleMessage_invalid:
  "frame = None \<or> (\<exists>doc ty p. frame = Some doc \<and> unmarshalEnvelope doc = (True, ty, p)) \<Longrightarrow>
   chans (handleMessage tank rnd c frame w) k =
     (if k = c_id c
      then enqueue (chans w k) (JSON (Envelope MsgError (ErrorPayload ''invalid message format'')))
      else chans w k)"
  by (auto simp: handleMessage_def sendError_def chans_sendEnvelope logLine_def)

lemma handleMessage_unknown:
  assumes "unmarshalEnvelope doc = (False, ty, p)"
    and "ty \<notin> {MsgRequestLobbies, MsgCreateLobby, MsgJoinLobby, MsgLeaveLobby, MsgSetReady,
                MsgStartGame}"
  shows "chans (handleMessage tank rnd c (Some doc) w) k =
     (if k = c_id c
      then enqueue (chans w k)
             (JSON (Envelope MsgError (ErrorPayload (''unknown message type: '' @ ty))))
      else chans w k)"
  using assms
  by (simp add: handleMessage_def dispatch_def sendError_def chans_sendEnvelope logLine_def)

lemma handleCreateLobby_malformed:
  assumes "fst (unmarshalCreateLobby p) \<or> snd (unmarshalCreateLobby p) = []"
  shows "chans (handleCreateLobby c p rnd w) k =
     (if k = c_id c
      then enqueue (chans w k) (JSON (Envelope MsgError (ErrorPayload ''invalid lobby name'')))
      else chans w k)"
  using assms
  by (auto simp: handleCreateLobby_def sendError_def chans_sendEnvelope split: prod.splits)

lemma handleJoinLobby_malformed:
  assumes "fst (unmarshalJoinLobby p) \<or> snd (unmarshalJoinLobby p) = []"
  shows "chans (handleJoinLobby c p w) k =
     (if k = c_id c
      then enqueue (chans w k) (JSON (Envelope MsgError (ErrorPayload ''invalid lobby id'')))
      else chans w k)"
  using assms
  by (auto simp: handleJoinLobby_def sendError_def chans_sendEnvelope split: prod.splits)

text \<open>
  \<open>handleSetReady\<close> has no such branch: for a client that is in no lobby it returns the
  store as it got it, whatever the payload.
\<close>

lemma handleSetReady_silent:
  "cur_lobby w (c_id c) = None \<Longrightarrow> handleSetReady c p w = w"
  by (simp add: handleSetReady_def)

text \<open>
  C8. Alice, in no lobby, sends \<^verbatim>\<open>{"type":"set_ready","payload":{"ready":"yes"}}\<close>.
  The envelope decodes; the payload does not decode as a \<open>SetReadyPayload\<close>, since
  \<open>ready\<close> holds a string. \<open>handleMessage\<close> returns with every queue as it was: no error
  envelope is sent, the log line for the received type is the only effect. For the other
  cases of the claim the error envelope is sent (\<open>handleMessage_invalid\<close>,
  \<open>handleMessage_unknown\<close>, \<open>handleCreateLobby_malformed\<close>,
  \<open>handleJoinLobby_malformed\<close>).
\<close>

theorem set_ready_decode_error_is_silent:
  "unmarshalEnvelope setReadyYes = (False, MsgSetReady, JObject [(''ready'', JString ''yes'')]) \<and>
   unmarshalSetReady (JObject [(''ready'', JString ''yes'')]) = (True, False) \<and>
   chans (handleMessage tank rnd alice (Some setReadyYes) emptyWorld) = chans emptyWorld \<and>
   logs (handleMessage tank rnd alice (Some setReadyYes) emptyWorld) =
     [''client a1a1a1a1000000000000000000000001 sent: set_ready'']"
  by (simp add: setReadyYes_def handleMessage_def unmarshalEnvelope_def envelopeMember_def
      keyIs_def lower_def dispatch_def Msg_defs handleSetReady_def unmarshalSetReady_def
      unmarshalStruct_def remarshal_def logLine_def emptyWorld_def alice_def)

end
